theory Spec2Isabelle
  imports Main "HOL-Library.Char_ord"
begin

section \<open>PrEx: promoter extraction\<close>

text \<open>
  A shallow embedding of \<^verbatim>\<open>prex.py\<close>: the identifier classification
  (\<^verbatim>\<open>decode_id\<close>), the principal isoform check (\<^verbatim>\<open>validate_identifier\<close>),
  the promoter interval (\<^verbatim>\<open>do_gff3_stuff\<close>, \<^verbatim>\<open>Region\<close>) and the loop of
  \<^verbatim>\<open>main\<close> over the identifiers.
\<close>

subsection \<open>Values, exceptions and printed lines\<close>

text \<open>
  The values held by a cell of the annotation table and by a field of a \<^verbatim>\<open>Region\<close>:
  \<^verbatim>\<open>None\<close> (a missing attribute), an integer or a string (a list of 8-bit
  characters). The integers of the \<^verbatim>\<open>start\<close> column are \<^verbatim>\<open>numpy.int64\<close>
  values (the column is cast with \<^verbatim>\<open>astype(int)\<close> and read with
  \<^verbatim>\<open>.values[0]\<close>), and so are the bounds of a \<^verbatim>\<open>Region\<close> computed from them.
\<close>

datatype pyval = PNone | PInt int | PStr string

text \<open>The exceptions the modelled code can raise; none of them is caught anywhere.\<close>

datatype error =
  KeyError string | IndexError | UnboundLocalError string | TypeError | OverflowError

text \<open>Python truthiness, as \<^verbatim>\<open>any([...])\<close> in \<^verbatim>\<open>Region.__bool__\<close> reads it.\<close>

fun truthy :: "pyval \<Rightarrow> bool" where
  "truthy PNone = False"
| "truthy (PInt n) = (n \<noteq> 0)"
| "truthy (PStr s) = (s \<noteq> [])"

text \<open>\<^verbatim>\<open>warn\<close> and \<^verbatim>\<open>info\<close> print one line each; the model returns the line.\<close>

definition warn :: "string \<Rightarrow> string" where
  "warn msg = ''[* ] '' @ msg"

definition info :: "string \<Rightarrow> string" where
  "info msg = ''[ok] '' @ msg"

subsection \<open>The regular expressions of \<^verbatim>\<open>decode_id\<close>\<close>

text \<open>
  The fragment of Python's \<^verbatim>\<open>re\<close> syntax that the five patterns use: a literal
  character, a character set \<^verbatim>\<open>[...]\<close> of single characters and ranges, the
  repetitions \<^verbatim>\<open>{n}\<close> and \<^verbatim>\<open>{n,}\<close>, and the anchor \<^verbatim>\<open>^\<close>, which
  (without \<^verbatim>\<open>re.MULTILINE\<close>) matches at the start of the string only.
\<close>

datatype member = Single char | Range char char

datatype atom = Lit char | Cls "member list"

datatype item = Caret | One atom | Times atom nat | AtLeast atom nat

fun member_ok :: "member \<Rightarrow> char \<Rightarrow> bool" where
  "member_ok (Single a) c = (c = a)"
| "member_ok (Range lo hi) c = (lo \<le> c \<and> c \<le> hi)"

fun atom_ok :: "atom \<Rightarrow> char \<Rightarrow> bool" where
  "atom_ok (Lit a) c = (c = a)"
| "atom_ok (Cls ms) c = list_ex (\<lambda>m. member_ok m c) ms"

text \<open>
  \<open>match_here bos items s\<close>: the items match a prefix of \<open>s\<close>, where \<open>s\<close> is what is
  left of the subject string and \<open>bos\<close> says that nothing of it has been consumed
  before \<open>s\<close> (so that \<^verbatim>\<open>^\<close> matches here).
\<close>

fun match_here :: "bool \<Rightarrow> item list \<Rightarrow> string \<Rightarrow> bool" where
  "match_here bos [] s = True"
| "match_here bos (Caret # its) s = (bos \<and> match_here bos its s)"
| "match_here bos (One a # its) s =
     (case s of [] \<Rightarrow> False | c # t \<Rightarrow> atom_ok a c \<and> match_here False its t)"
| "match_here bos (Times a n # its) s =
     (n \<le> length s \<and> list_all (atom_ok a) (take n s)
      \<and> match_here (bos \<and> n = 0) its (drop n s))"
| "match_here bos (AtLeast a n # its) s =
     list_ex (\<lambda>k. list_all (atom_ok a) (take k s) \<and> match_here (bos \<and> k = 0) its (drop k s))
       [n ..< Suc (length s)]"

text \<open>
  \<^verbatim>\<open>re.search(pattern, string)\<close> as a truth value: the pattern matches at some
  position of the string.
\<close>

definition re_search :: "item list \<Rightarrow> string \<Rightarrow> bool" where
  "re_search its s = list_ex (\<lambda>i. match_here (i = 0) its (drop i s)) [0 ..< Suc (length s)]"

definition digit :: atom where
  "digit = Cls [Range (CHR ''0'') (CHR ''9'')]"

text \<open>\<^verbatim>\<open>'^ENST[0-9]{11}'\<close>\<close>

definition re_ENST :: "item list" where
  "re_ENST = [Caret, One (Lit (CHR ''E'')), One (Lit (CHR ''N'')), One (Lit (CHR ''S'')),
              One (Lit (CHR ''T'')), Times digit 11]"

text \<open>\<^verbatim>\<open>'^ENSG[0-9]{11}'\<close>\<close>

definition re_ENSG :: "item list" where
  "re_ENSG = [Caret, One (Lit (CHR ''E'')), One (Lit (CHR ''N'')), One (Lit (CHR ''S'')),
              One (Lit (CHR ''G'')), Times digit 11]"

text \<open>\<^verbatim>\<open>'^uc[0-9]{3}[a-z]{3}\.'\<close>\<close>

definition re_UCSC :: "item list" where
  "re_UCSC = [Caret, One (Lit (CHR ''u'')), One (Lit (CHR ''c'')), Times digit 3,
              Times (Cls [Range (CHR ''a'') (CHR ''z'')]) 3, One (Lit (CHR ''.''))]"

text \<open>\<^verbatim>\<open>'^[NX][GM]_'\<close>\<close>

definition re_REFSEQ :: "item list" where
  "re_REFSEQ = [Caret, One (Cls [Single (CHR ''N''), Single (CHR ''X'')]),
                One (Cls [Single (CHR ''G''), Single (CHR ''M'')]), One (Lit (CHR ''_''))]"

text \<open>\<^verbatim>\<open>'[A-Z0-9][A-Za-z0-9]{1,}'\<close>: the only pattern without \<^verbatim>\<open>^\<close>.\<close>

definition upper_or_digit :: atom where
  "upper_or_digit = Cls [Range (CHR ''A'') (CHR ''Z''), Range (CHR ''0'') (CHR ''9'')]"

definition alnum :: atom where
  "alnum = Cls [Range (CHR ''A'') (CHR ''Z''), Range (CHR ''a'') (CHR ''z''),
                Range (CHR ''0'') (CHR ''9'')]"

definition re_SYMBOL :: "item list" where
  "re_SYMBOL = [One upper_or_digit, AtLeast alnum 1]"

subsection \<open>Identifier kinds and \<^verbatim>\<open>decode_id\<close>\<close>

text \<open>
  The constants \<^verbatim>\<open>ENST = 1\<close> ... \<^verbatim>\<open>SYMBOL = 5\<close>; all five are non-zero, so
  \<^verbatim>\<open>if id_type:\<close> holds exactly when \<^verbatim>\<open>decode_id\<close> did not return \<^verbatim>\<open>None\<close>.
\<close>

datatype id_type = ENST | ENSG | UCSC | REFSEQ | SYMBOL

fun id_descriptions :: "id_type \<Rightarrow> string" where
  "id_descriptions ENST = ''ensembl! transcript''"
| "id_descriptions ENSG = ''ensembl! gene''"
| "id_descriptions UCSC = ''UCSC transcript id''"
| "id_descriptions REFSEQ = ''NCBI Refseq id''"
| "id_descriptions SYMBOL = ''Official gene symbol''"

text \<open>
  The dictionary \<^verbatim>\<open>id_gff3_names\<close>. \<^verbatim>\<open>main\<close> indexes it with the result of
  \<^verbatim>\<open>decode_id\<close>, which may be \<^verbatim>\<open>None\<close>: that key is not in the dictionary.
\<close>

fun id_gff3_names :: "id_type option \<rightharpoonup> string" where
  "id_gff3_names (Some ENST) = Some ''transcript_id''"
| "id_gff3_names (Some ENSG) = Some ''gene_id''"
| "id_gff3_names (Some UCSC) = Some ''TBD''"
| "id_gff3_names (Some REFSEQ) = Some ''TBD''"
| "id_gff3_names (Some SYMBOL) = Some ''gene_name''"
| "id_gff3_names None = None"

text \<open>\<^verbatim>\<open>decode_id\<close> returns the kind (or \<^verbatim>\<open>None\<close>) and the lines it printed.\<close>

definition decode_id :: "string \<Rightarrow> id_type option \<times> string list" where
  "decode_id identifier =
     (if re_search re_ENST identifier then (Some ENST, [])
      else if re_search re_ENSG identifier then (Some ENSG, [])
      else if re_search re_UCSC identifier then (Some UCSC, [])
      else if re_search re_REFSEQ identifier then (Some REFSEQ, [])
      else if re_search re_SYMBOL identifier then (Some SYMBOL, [])
      else (None, [warn (''I was unable to understand your gene id: '' @ identifier)]))"

text \<open>
  The words of the specification for the fifth kind: a token \<^emph>\<open>beginning\<close> with an
  uppercase letter or digit, followed by one or more alphanumeric characters.
\<close>

definition spec_symbol_shape :: "string \<Rightarrow> bool" where
  "spec_symbol_shape s =
     (case s of a # b # _ \<Rightarrow> atom_ok upper_or_digit a \<and> atom_ok alnum b | _ \<Rightarrow> False)"

text \<open>The specification's reading of the classification: the first pattern that matches.\<close>

definition spec_first_match :: "string \<Rightarrow> id_type option" where
  "spec_first_match s =
     map_option snd
       (find (\<lambda>p. re_search (fst p) s)
          [(re_ENST, ENST), (re_ENSG, ENSG), (re_UCSC, UCSC), (re_REFSEQ, REFSEQ),
           (re_SYMBOL, SYMBOL)])"

subsection \<open>The annotation table\<close>

text \<open>
  The annotation is a pandas \<^verbatim>\<open>DataFrame\<close>: named columns and rows, every row
  holding one value per column. A row is read through the column names only, and reading
  a name that is not a column of the frame raises \<^verbatim>\<open>KeyError\<close>.
\<close>

type_synonym row = "string \<Rightarrow> pyval"

record dataframe =
  columns :: "string list"
  rows :: "row list"

text \<open>Sequencing of computations that may raise.\<close>

definition and_then :: "error + 'a \<Rightarrow> ('a \<Rightarrow> error + 'b) \<Rightarrow> error + 'b" where
  "and_then m f = (case m of Inl e \<Rightarrow> Inl e | Inr x \<Rightarrow> f x)"

text \<open>
  \<^verbatim>\<open>df[df[c] == v]\<close>: the rows whose cell in column \<open>c\<close> equals \<open>v\<close>. The
  comparison is by value, and a comparison with \<^verbatim>\<open>None\<close> is false for every row.
\<close>

definition mask_eq :: "dataframe \<Rightarrow> string \<Rightarrow> pyval \<Rightarrow> error + dataframe" where
  "mask_eq df c v =
     (if c \<in> set (columns df)
      then Inr (df\<lparr>rows := filter (\<lambda>r. r c = v \<and> v \<noteq> PNone) (rows df)\<rparr>)
      else Inl (KeyError c))"

text \<open>\<^verbatim>\<open>df.dropna(subset=[c])\<close>: the rows whose cell in column \<open>c\<close> is not missing.\<close>

definition dropna :: "dataframe \<Rightarrow> string \<Rightarrow> error + dataframe" where
  "dropna df c =
     (if c \<in> set (columns df)
      then Inr (df\<lparr>rows := filter (\<lambda>r. r c \<noteq> PNone) (rows df)\<rparr>)
      else Inl (KeyError c))"

text \<open>
  \<^verbatim>\<open>df[[c1, ..., cn]]\<close>: the frame with these columns only. The rows keep their
  other cells, which no operation can read any more.
\<close>

definition select :: "dataframe \<Rightarrow> string list \<Rightarrow> error + dataframe" where
  "select df cs =
     (case find (\<lambda>c. c \<notin> set (columns df)) cs of
        Some c \<Rightarrow> Inl (KeyError c)
      | None \<Rightarrow> Inr (df\<lparr>columns := cs\<rparr>))"

text \<open>
  \<^verbatim>\<open>df.drop_duplicates()\<close>: of the rows that agree on every column of the frame,
  the first one is kept; the order of the rows is unchanged.
\<close>

fun dedup_by :: "('a \<Rightarrow> 'k) \<Rightarrow> 'k list \<Rightarrow> 'a list \<Rightarrow> 'a list" where
  "dedup_by key seen [] = []"
| "dedup_by key seen (x # xs) =
     (if key x \<in> set seen then dedup_by key seen xs
      else x # dedup_by key (key x # seen) xs)"

definition drop_duplicates :: "dataframe \<Rightarrow> dataframe" where
  "drop_duplicates df = df\<lparr>rows := dedup_by (\<lambda>r. map r (columns df)) [] (rows df)\<rparr>"

text \<open>\<^verbatim>\<open>df[c].values[0]\<close>: the cell of the first row in column \<open>c\<close>.\<close>

definition values0 :: "dataframe \<Rightarrow> string \<Rightarrow> error + pyval" where
  "values0 df c =
     (if c \<in> set (columns df)
      then (case rows df of [] \<Rightarrow> Inl IndexError | r # _ \<Rightarrow> Inr (r c))
      else Inl (KeyError c))"

subsection \<open>\<^verbatim>\<open>validate_identifier\<close>\<close>

text \<open>
  The result is the truth value returned and the lines printed by \<^verbatim>\<open>warn\<close>.
  \<^verbatim>\<open>principal_count\<close> is computed before the slice is tested for emptiness, as in
  the source.
\<close>

definition validate_identifier ::
  "dataframe \<Rightarrow> string \<Rightarrow> string \<Rightarrow> error + (bool \<times> string list)" where
  "validate_identifier annot id_column identifier =
     and_then (mask_eq annot id_column (PStr identifier)) (\<lambda>this_gene.
     and_then (dropna this_gene ''appris_principal'') (\<lambda>sub.
     and_then (mask_eq sub ''feature'' (PStr ''start_codon'')) (\<lambda>start_codons.
     and_then (select start_codons [''start'', ''end'']) (\<lambda>coords.
       let principal_count = length (rows (drop_duplicates coords)) in
       if length (rows this_gene) = 0
       then Inr (False, [warn (''no '' @ id_column @ '' known by this identifier: '' @ identifier)])
       else if principal_count = 0
       then Inr (False, [warn (''no principal isoform found for '' @ identifier)])
       else if principal_count > 1
       then Inr (False, [warn (''too many primary isoforms for '' @ identifier)])
       else Inr (True, [])))))"

text \<open>
  The specification's words for the same check: the slice of the annotation, and the set
  of distinct coordinate pairs of its principal start codon rows.
\<close>

definition spec_slice :: "dataframe \<Rightarrow> string \<Rightarrow> string \<Rightarrow> row list" where
  "spec_slice annot lookup_column identifier =
     filter (\<lambda>r. r lookup_column = PStr identifier) (rows annot)"

definition spec_principal_pairs :: "dataframe \<Rightarrow> string \<Rightarrow> string \<Rightarrow> (pyval \<times> pyval) set" where
  "spec_principal_pairs annot lookup_column identifier =
     (\<lambda>r. (r ''start'', r ''end'')) `
       set (filter (\<lambda>r. r ''appris_principal'' \<noteq> PNone \<and> r ''feature'' = PStr ''start_codon'')
              (spec_slice annot lookup_column identifier))"

subsection \<open>\<^verbatim>\<open>Region\<close> and \<^verbatim>\<open>do_gff3_stuff\<close>\<close>

record Region =
  chrom :: pyval
  start :: pyval
  end' :: pyval
  name :: pyval
  score :: pyval
  strand :: pyval

text \<open>\<^verbatim>\<open>Region.__bool__\<close>: some field is truthy.\<close>

definition Region_bool :: "Region \<Rightarrow> bool" where
  "Region_bool self =
     list_ex truthy [chrom self, start self, end' self, name self, score self, strand self]"

text \<open>
  \<^verbatim>\<open>CDS - up\<close> and \<^verbatim>\<open>CDS + down\<close>: \<^verbatim>\<open>CDS\<close> is a
  \<^verbatim>\<open>numpy.int64\<close> and the offset a Python integer (\<^verbatim>\<open>type=int\<close>). An offset
  outside the 64-bit range raises \<^verbatim>\<open>OverflowError\<close>; otherwise the result is a
  \<^verbatim>\<open>numpy.int64\<close> again, wrapping around at \<open>2 ^ 63\<close>. A coordinate that is not
  a number raises \<^verbatim>\<open>TypeError\<close>.
\<close>

definition in_int64 :: "int \<Rightarrow> bool" where
  "in_int64 x = (- (2 ^ 63) \<le> x \<and> x < 2 ^ 63)"

definition int64_wrap :: "int \<Rightarrow> int" where
  "int64_wrap x = (x + 2 ^ 63) mod 2 ^ 64 - 2 ^ 63"

fun py_sub :: "pyval \<Rightarrow> int \<Rightarrow> error + int" where
  "py_sub (PInt a) b = (if in_int64 b then Inr (int64_wrap (a - b)) else Inl OverflowError)"
| "py_sub _ b = Inl TypeError"

fun py_add :: "pyval \<Rightarrow> int \<Rightarrow> error + int" where
  "py_add (PInt a) b = (if in_int64 b then Inr (int64_wrap (a + b)) else Inl OverflowError)"
| "py_add _ b = Inl TypeError"

text \<open>
  When the strand is neither \<^verbatim>\<open>"+"\<close> nor \<^verbatim>\<open>"-"\<close>, neither branch assigns
  \<^verbatim>\<open>bed_start\<close> and \<^verbatim>\<open>bed_end\<close>, and the \<^verbatim>\<open>return\<close> line, reading
  \<^verbatim>\<open>bed_start\<close> first, raises \<^verbatim>\<open>UnboundLocalError\<close>.
\<close>

definition do_gff3_stuff ::
  "dataframe \<Rightarrow> string \<Rightarrow> string \<Rightarrow> int \<Rightarrow> int \<Rightarrow> error + Region" where
  "do_gff3_stuff principal' id_column identifier up down =
     and_then (mask_eq principal' ''feature'' (PStr ''start_codon'')) (\<lambda>start_codon.
     and_then (values0 start_codon ''start'') (\<lambda>CDS.
     and_then (values0 start_codon ''seqname'') (\<lambda>chr.
     and_then (values0 start_codon ''strand'') (\<lambda>str.
       if str = PStr ''+'' then
         and_then (py_sub CDS up) (\<lambda>bed_start.
         and_then (py_add CDS down) (\<lambda>bed_end.
           Inr \<lparr>chrom = chr, start = PInt bed_start, end' = PInt bed_end,
                name = PStr identifier, score = PStr ''.'', strand = str\<rparr>))
       else if str = PStr ''-'' then
         and_then (py_sub CDS down) (\<lambda>bed_start.
         and_then (py_add CDS up) (\<lambda>bed_end.
           Inr \<lparr>chrom = chr, start = PInt bed_start, end' = PInt bed_end,
                name = PStr identifier, score = PStr ''.'', strand = str\<rparr>))
       else Inl (UnboundLocalError ''bed_start'')))))"

text \<open>
  The rows \<^verbatim>\<open>do_gff3_stuff\<close> selects, and its precondition in the specification: the
  four columns it reads exist and there is a start codon row; \<open>first_start_codon\<close>
  names the coordinate, the chromosome and the strand of the first one.
\<close>

definition start_codon_rows :: "dataframe \<Rightarrow> row list" where
  "start_codon_rows principal' = filter (\<lambda>r. r ''feature'' = PStr ''start_codon'') (rows principal')"

definition reads_columns :: "dataframe \<Rightarrow> bool" where
  "reads_columns principal' =
     list_all (\<lambda>c. c \<in> set (columns principal')) [''feature'', ''start'', ''seqname'', ''strand'']"

definition first_start_codon :: "dataframe \<Rightarrow> pyval \<Rightarrow> pyval \<Rightarrow> pyval \<Rightarrow> bool" where
  "first_start_codon principal' CDS chr str =
     (reads_columns principal' \<and>
      (case start_codon_rows principal' of [] \<Rightarrow> False
       | r # _ \<Rightarrow> r ''start'' = CDS \<and> r ''seqname'' = chr \<and> r ''strand'' = str))"

subsection \<open>The loop of \<^verbatim>\<open>main\<close>\<close>

text \<open>
  What a run shows to the outside: the lines it prints and its calls of
  \<^verbatim>\<open>bedtools_cmd\<close> (region, identifier, FASTA input, FASTA output), whose body
  runs the external tool and is not modelled.
\<close>

datatype event = Print string | Bedtools_cmd Region string string string

text \<open>How one iteration of the loop ends when no exception is raised.\<close>

datatype outcome = SkippedInvalid | SkippedEmptyRegion | Extracted

text \<open>
  \<^verbatim>\<open>principals\<close>: the rows with an \<^verbatim>\<open>appris_principal\<close> value, five of their
  columns, without duplicates.
\<close>

definition principals_of :: "dataframe \<Rightarrow> error + dataframe" where
  "principals_of annot =
     and_then (dropna annot ''appris_principal'') (\<lambda>d.
     and_then (select d [''gene_name'', ''gene_id'', ''transcript_name'', ''transcript_id'',
                         ''appris_principal'']) (\<lambda>p.
       Inr (drop_duplicates p)))"

text \<open>
  One iteration for one identifier: the events of the iteration, and the exception that
  ends the run or the way the iteration ended. \<^verbatim>\<open>id_gff3_names[id_type]\<close> is
  evaluated before \<^verbatim>\<open>if id_type:\<close>.
\<close>

definition main_step ::
  "dataframe \<Rightarrow> dataframe \<Rightarrow> int \<Rightarrow> int \<Rightarrow> string \<Rightarrow> string \<Rightarrow> event list \<times> (error + outcome)" where
  "main_step annot principals up down fasta identifier =
     (case decode_id identifier of (id_type, out1) \<Rightarrow>
      (case id_gff3_names id_type of
         None \<Rightarrow> (map Print out1, Inl (KeyError ''None''))
       | Some id_column \<Rightarrow>
           let out2 = out1 @ (case id_type of None \<Rightarrow> []
                              | Some t \<Rightarrow> [info (identifier @ '' => '' @ id_descriptions t)])
           in
           (case validate_identifier annot id_column identifier of
              Inl e \<Rightarrow> (map Print out2, Inl e)
            | Inr (ok, out3) \<Rightarrow>
                if \<not> ok then (map Print (out2 @ out3 @ [[]]), Inr SkippedInvalid)
                else
                  (case and_then (mask_eq principals id_column (PStr identifier)) (\<lambda>p.
                        and_then (values0 p ''transcript_id'') (\<lambda>primary_isoform.
                        and_then (mask_eq annot ''transcript_id'' primary_isoform) (\<lambda>tr.
                          do_gff3_stuff tr id_column identifier up down)))
                   of
                     Inl e \<Rightarrow> (map Print (out2 @ out3), Inl e)
                   | Inr region \<Rightarrow>
                       if \<not> Region_bool region
                       then (map Print (out2 @ out3 @ [[]]), Inr SkippedEmptyRegion)
                       else (map Print (out2 @ out3)
                               @ [Bedtools_cmd region identifier fasta (identifier @ ''.fa''),
                                  Print []],
                             Inr Extracted)))))"

text \<open>
  The \<^verbatim>\<open>for\<close> loop: the iterations in the order of the identifiers; an exception
  ends the run, the identifiers after it are not looked at.
\<close>

fun main_loop ::
  "dataframe \<Rightarrow> dataframe \<Rightarrow> int \<Rightarrow> int \<Rightarrow> string \<Rightarrow> string list
     \<Rightarrow> event list \<times> (error + outcome list)" where
  "main_loop annot principals up down fasta [] = ([], Inr [])"
| "main_loop annot principals up down fasta (identifier # rest) =
     (case main_step annot principals up down fasta identifier of
        (out, Inl e) \<Rightarrow> (out, Inl e)
      | (out, Inr oc) \<Rightarrow>
          (case main_loop annot principals up down fasta rest of
             (out', Inl e) \<Rightarrow> (out @ out', Inl e)
           | (out', Inr ocs) \<Rightarrow> (out @ out', Inr (oc # ocs))))"

text \<open>
  \<^verbatim>\<open>main\<close> from the computation of \<^verbatim>\<open>principals\<close> on. \<open>annot\<close> is the
  annotation as loaded, after the cast of its \<^verbatim>\<open>start\<close> column to integers.
\<close>

definition main_body ::
  "dataframe \<Rightarrow> int \<Rightarrow> int \<Rightarrow> string \<Rightarrow> string list \<Rightarrow> event list \<times> (error + outcome list)" where
  "main_body annot up down fasta identifiers =
     (case principals_of annot of
        Inl e \<Rightarrow> ([], Inl e)
      | Inr principals \<Rightarrow>
          (case main_loop annot principals up down fasta identifiers of
             (out, res) \<Rightarrow> (Print (info (''probing genes'' @ [CHR 0x0A])) # out, res)))"

subsection \<open>A small annotation\<close>

text \<open>
  An annotation with the columns of a GENCODE file: a gene on the minus strand and one on
  the plus strand with one principal start codon each, a gene with two principal start
  codons at different coordinates, a gene with no principal isoform, and a gene whose
  start codon has the strand \<^verbatim>\<open>.\<close>
\<close>

definition mk_row :: "(string \<times> pyval) list \<Rightarrow> row" where
  "mk_row kvs = (\<lambda>c. case map_of kvs c of None \<Rightarrow> PNone | Some v \<Rightarrow> v)"

definition feature_row ::
  "string \<Rightarrow> string \<Rightarrow> int \<Rightarrow> int \<Rightarrow> string \<Rightarrow> string \<Rightarrow> string \<Rightarrow> pyval \<Rightarrow> row" where
  "feature_row chr feat s e str gene transcript appris =
     mk_row [(''seqname'', PStr chr), (''feature'', PStr feat), (''start'', PInt s),
             (''end'', PInt e), (''strand'', PStr str), (''gene_name'', PStr gene),
             (''gene_id'', PStr (''ENSG_'' @ gene)), (''transcript_id'', PStr transcript),
             (''transcript_name'', PStr (gene @ ''-001'')), (''appris_principal'', appris)]"

definition example_annot :: dataframe where
  "example_annot =
     \<lparr>columns = [''seqname'', ''feature'', ''start'', ''end'', ''strand'', ''gene_name'',
                 ''gene_id'', ''transcript_id'', ''transcript_name'', ''appris_principal''],
      rows =
        [feature_row ''chr17'' ''transcript'' 400 1002 ''-'' ''TP53'' ''T1'' (PStr ''1''),
         feature_row ''chr17'' ''start_codon'' 1000 1002 ''-'' ''TP53'' ''T1'' (PStr ''1''),
         feature_row ''chr1'' ''start_codon'' 1000 1002 ''+'' ''GENEP'' ''T2'' (PStr ''1''),
         feature_row ''chr2'' ''start_codon'' 5000 5002 ''+'' ''AMBIG'' ''T3'' (PStr ''1''),
         feature_row ''chr2'' ''start_codon'' 7000 7002 ''+'' ''AMBIG'' ''T4'' (PStr ''2''),
         feature_row ''chr3'' ''start_codon'' 300 302 ''+'' ''NOPRINC'' ''T5'' PNone,
         feature_row ''chr4'' ''start_codon'' 800 802 ''.'' ''NOSTRAND'' ''T6'' (PStr ''1'')]\<rparr>"

text \<open>The rows of one transcript, as \<^verbatim>\<open>main\<close> hands them to \<^verbatim>\<open>do_gff3_stuff\<close>.\<close>

definition example_transcript :: "string \<Rightarrow> dataframe" where
  "example_transcript t =
     example_annot\<lparr>rows := filter (\<lambda>r. r ''transcript_id'' = PStr t) (rows example_annot)\<rparr>"

text \<open>
  A start codon at the largest 64-bit coordinate, \<open>2 ^ 63 - 1\<close>, on the given strand.
\<close>

definition edge_frame :: "string \<Rightarrow> dataframe" where
  "edge_frame str =
     example_annot\<lparr>rows :=
       [feature_row ''chr1'' ''start_codon'' 9223372036854775807 9223372036854775807 str
          ''EDGE'' ''T7'' (PStr ''1'')]\<rparr>"

section \<open>Properties of the classification\<close>

lemmas re_defs = re_ENST_def re_ENSG_def re_UCSC_def re_REFSEQ_def re_SYMBOL_def
  digit_def upper_or_digit_def alnum_def

lemma re_search_Caret: "re_search (Caret # its) s = match_here True its s"
  by (auto simp: re_search_def list_ex_iff)

lemma match_here_One:
  "match_here bos (One a # its) s = (\<exists>c t. s = c # t \<and> atom_ok a c \<and> match_here False its t)"
  by (cases s) auto

lemma ENST_prefix:
  "re_search re_ENST s \<Longrightarrow> \<exists>t. s = CHR ''E'' # CHR ''N'' # CHR ''S'' # CHR ''T'' # t"
  by (auto simp: re_ENST_def re_search_Caret match_here_One simp del: match_here.simps(3))

lemma ENSG_prefix:
  "re_search re_ENSG s \<Longrightarrow> \<exists>t. s = CHR ''E'' # CHR ''N'' # CHR ''S'' # CHR ''G'' # t"
  by (auto simp: re_ENSG_def re_search_Caret match_here_One simp del: match_here.simps(3))

lemma UCSC_prefix: "re_search re_UCSC s \<Longrightarrow> \<exists>t. s = CHR ''u'' # t"
  by (auto simp: re_UCSC_def re_search_Caret match_here_One simp del: match_here.simps(3))

lemma REFSEQ_prefix: "re_search re_REFSEQ s \<Longrightarrow> \<exists>t. s = CHR ''N'' # t \<or> s = CHR ''X'' # t"
  by (auto simp: re_REFSEQ_def re_search_Caret match_here_One simp del: match_here.simps(3))

lemma ENSG_not_ENST: "re_search re_ENSG s \<Longrightarrow> \<not> re_search re_ENST s"
  using ENSG_prefix [of s] ENST_prefix [of s] by auto

lemma UCSC_not_ENS: "re_search re_UCSC s \<Longrightarrow> \<not> re_search re_ENST s \<and> \<not> re_search re_ENSG s"
  using UCSC_prefix [of s] ENST_prefix [of s] ENSG_prefix [of s] by auto

lemma REFSEQ_not_others:
  "re_search re_REFSEQ s \<Longrightarrow>
     \<not> re_search re_ENST s \<and> \<not> re_search re_ENSG s \<and> \<not> re_search re_UCSC s"
  using REFSEQ_prefix [of s] ENST_prefix [of s] ENSG_prefix [of s] UCSC_prefix [of s] by auto

text \<open>
  What the unanchored fifth pattern asks of a string: somewhere in it an uppercase letter
  or digit is followed by an alphanumeric character.
\<close>

lemma match_here_SYMBOL:
  "match_here bos re_SYMBOL s =
     (\<exists>a b t. s = a # b # t \<and> atom_ok upper_or_digit a \<and> atom_ok alnum b)"
proof
  assume "match_here bos re_SYMBOL s"
  then obtain a t k where s: "s = a # t" and a: "atom_ok upper_or_digit a"
    and k: "k \<in> set [1 ..< Suc (length t)]" "list_all (atom_ok alnum) (take k t)"
    unfolding re_SYMBOL_def match_here_One match_here.simps(5) list_ex_iff by blast
  from k(1) have k1: "Suc 0 \<le> k" "k \<le> length t" by (simp_all del: upt_Suc)
  then obtain b u where t: "t = b # u" by (cases t) auto
  from k1 obtain k' where "k = Suc k'" by (cases k) auto
  with k(2) t have "atom_ok alnum b" by simp
  with s t a show "\<exists>a b t. s = a # b # t \<and> atom_ok upper_or_digit a \<and> atom_ok alnum b"
    by blast
next
  assume "\<exists>a b t. s = a # b # t \<and> atom_ok upper_or_digit a \<and> atom_ok alnum b"
  then obtain a b t where s: "s = a # b # t" and ab: "atom_ok upper_or_digit a" "atom_ok alnum b"
    by blast
  have "Suc 0 \<in> set [1 ..< Suc (length (b # t))]" by (simp del: upt_Suc)
  moreover have "list_all (atom_ok alnum) (take (Suc 0) (b # t))" using ab by simp
  ultimately have "list_ex (\<lambda>k. list_all (atom_ok alnum) (take k (b # t))
       \<and> match_here (False \<and> k = 0) [] (drop k (b # t))) [1 ..< Suc (length (b # t))]"
    unfolding list_ex_iff by (intro bexI [of _ "Suc 0"]) simp_all
  with ab show "match_here bos re_SYMBOL s"
    unfolding s re_SYMBOL_def by simp
qed

lemma re_search_SYMBOL:
  "re_search re_SYMBOL s =
     (\<exists>p a b t. s = p @ a # b # t \<and> atom_ok upper_or_digit a \<and> atom_ok alnum b)"
proof
  assume "re_search re_SYMBOL s"
  then obtain i where "match_here (i = 0) re_SYMBOL (drop i s)"
    unfolding re_search_def list_ex_iff by blast
  then obtain a b t where d: "drop i s = a # b # t"
    and ab: "atom_ok upper_or_digit a" "atom_ok alnum b"
    unfolding match_here_SYMBOL by blast
  have "s = take i s @ drop i s" by simp
  with d have "s = take i s @ a # b # t" by simp
  with ab show "\<exists>p a b t. s = p @ a # b # t \<and> atom_ok upper_or_digit a \<and> atom_ok alnum b"
    by blast
next
  assume "\<exists>p a b t. s = p @ a # b # t \<and> atom_ok upper_or_digit a \<and> atom_ok alnum b"
  then obtain p a b t where s: "s = p @ a # b # t"
    and ab: "atom_ok upper_or_digit a" "atom_ok alnum b"
    by blast
  then have "match_here (length p = 0) re_SYMBOL (drop (length p) s)"
    by (simp add: match_here_SYMBOL)
  moreover have "length p \<in> set [0 ..< Suc (length s)]" by (simp add: s)
  ultimately show "re_search re_SYMBOL s"
    unfolding re_search_def list_ex_iff by blast
qed

lemma spec_symbol_shape_iff:
  "spec_symbol_shape s =
     (\<exists>a b t. s = a # b # t \<and> atom_ok upper_or_digit a \<and> atom_ok alnum b)"
  by (auto simp: spec_symbol_shape_def split: list.splits)

text \<open>
  Claim C3. The five patterns are tried in the order of the source and the first one
  that matches decides: a string matching \<^verbatim>\<open>^ENST[0-9]{11}\<close> is an Ensembl
  transcript, one matching \<^verbatim>\<open>^ENSG[0-9]{11}\<close> an Ensembl gene, one matching
  \<^verbatim>\<open>^uc[0-9]{3}[a-z]{3}\.\<close> a UCSC id, one matching \<^verbatim>\<open>^[NX][GM]_\<close> a RefSeq id
  (each of them is that kind and hence no other), and the result is Symbol exactly when
  the fifth pattern matches and none of the first four does.
\<close>

theorem decode_id_first_match_wins:
  "fst (decode_id s) = spec_first_match s
   \<and> (re_search re_ENST s \<longrightarrow> fst (decode_id s) = Some ENST)
   \<and> (re_search re_ENSG s \<longrightarrow> fst (decode_id s) = Some ENSG)
   \<and> (re_search re_UCSC s \<longrightarrow> fst (decode_id s) = Some UCSC)
   \<and> (re_search re_REFSEQ s \<longrightarrow> fst (decode_id s) = Some REFSEQ)
   \<and> (fst (decode_id s) = Some SYMBOL \<longleftrightarrow>
        re_search re_SYMBOL s \<and> \<not> re_search re_ENST s \<and> \<not> re_search re_ENSG s
        \<and> \<not> re_search re_UCSC s \<and> \<not> re_search re_REFSEQ s)"
proof -
  have "fst (decode_id s) = spec_first_match s"
    by (simp add: decode_id_def spec_first_match_def)
  moreover have "re_search re_ENST s \<longrightarrow> fst (decode_id s) = Some ENST"
    by (simp add: decode_id_def)
  moreover have "re_search re_ENSG s \<longrightarrow> fst (decode_id s) = Some ENSG"
    using ENSG_not_ENST [of s] by (simp add: decode_id_def)
  moreover have "re_search re_UCSC s \<longrightarrow> fst (decode_id s) = Some UCSC"
    using UCSC_not_ENS [of s] by (simp add: decode_id_def)
  moreover have "re_search re_REFSEQ s \<longrightarrow> fst (decode_id s) = Some REFSEQ"
    using REFSEQ_not_others [of s] by (simp add: decode_id_def)
  moreover have "fst (decode_id s) = Some SYMBOL \<longleftrightarrow>
        re_search re_SYMBOL s \<and> \<not> re_search re_ENST s \<and> \<not> re_search re_ENSG s
        \<and> \<not> re_search re_UCSC s \<and> \<not> re_search re_REFSEQ s"
    by (simp add: decode_id_def)
  ultimately show ?thesis by blast
qed

theorem decode_id_first_match_wins_witness:
  "re_search re_ENST ''ENST00000380152'' \<and> fst (decode_id ''ENST00000380152'') = Some ENST
   \<and> re_search re_ENSG ''ENSG00000141510'' \<and> fst (decode_id ''ENSG00000141510'') = Some ENSG
   \<and> re_search re_UCSC ''uc002gig.1'' \<and> fst (decode_id ''uc002gig.1'') = Some UCSC
   \<and> re_search re_REFSEQ ''NM_000546'' \<and> fst (decode_id ''NM_000546'') = Some REFSEQ
   \<and> re_search re_SYMBOL ''TP53'' \<and> fst (decode_id ''TP53'') = Some SYMBOL
   \<and> \<not> re_search re_ENST ''TP53'' \<and> \<not> re_search re_ENSG ''TP53''
   \<and> \<not> re_search re_UCSC ''TP53'' \<and> \<not> re_search re_REFSEQ ''TP53''"
proof -
  have m: "re_search re_ENST ''ENST00000380152''" "re_search re_ENSG ''ENSG00000141510''"
    "re_search re_UCSC ''uc002gig.1''" "re_search re_REFSEQ ''NM_000546''"
    "re_search re_SYMBOL ''TP53''"
    by (simp_all add: re_search_def re_defs)
  have n: "\<not> re_search re_ENST ''TP53''" "\<not> re_search re_ENSG ''TP53''"
    "\<not> re_search re_UCSC ''TP53''" "\<not> re_search re_REFSEQ ''TP53''"
    by (simp_all add: re_search_def re_defs)
  note c2 = conjunct2 and c1 = conjunct1
  have "fst (decode_id ''ENST00000380152'') = Some ENST"
    by (rule decode_id_first_match_wins [of "''ENST00000380152''", THEN c2, THEN c1, THEN mp,
          OF m(1)])
  moreover have "fst (decode_id ''ENSG00000141510'') = Some ENSG"
    by (rule decode_id_first_match_wins [of "''ENSG00000141510''", THEN c2, THEN c2, THEN c1,
          THEN mp, OF m(2)])
  moreover have "fst (decode_id ''uc002gig.1'') = Some UCSC"
    by (rule decode_id_first_match_wins [of "''uc002gig.1''", THEN c2, THEN c2, THEN c2, THEN c1,
          THEN mp, OF m(3)])
  moreover have "fst (decode_id ''NM_000546'') = Some REFSEQ"
    by (rule decode_id_first_match_wins [of "''NM_000546''", THEN c2, THEN c2, THEN c2, THEN c2,
          THEN c1, THEN mp, OF m(4)])
  moreover have "fst (decode_id ''TP53'') = Some SYMBOL"
    using m(5) n
    by (simp only: decode_id_first_match_wins [of "''TP53''", THEN c2, THEN c2, THEN c2, THEN c2,
          THEN c2] simp_thms)
  ultimately show ?thesis using m n by simp
qed

text \<open>
  Claim C7. Among the identifiers that match none of the first four patterns, the
  specification lets Symbol be returned exactly for those that begin with an uppercase
  letter or digit followed by an alphanumeric character. The fifth pattern of the source
  lacks the \<^verbatim>\<open>^\<close> of its four siblings: \<^verbatim>\<open>tp53\<close> matches none of the first
  four patterns, does not begin as a symbol, and is classified Symbol all the same
  (the search finds \<^verbatim>\<open>53\<close>). \<^verbatim>\<open>TP53\<close> is Symbol with column \<^verbatim>\<open>gene_name\<close>.
\<close>

theorem decode_id_symbol_unanchored:
  "\<not> re_search re_ENST ''tp53'' \<and> \<not> re_search re_ENSG ''tp53''
   \<and> \<not> re_search re_UCSC ''tp53'' \<and> \<not> re_search re_REFSEQ ''tp53''
   \<and> \<not> spec_symbol_shape ''tp53''
   \<and> decode_id ''tp53'' = (Some SYMBOL, [])
   \<and> decode_id ''TP53'' = (Some SYMBOL, [])
   \<and> id_gff3_names (fst (decode_id ''TP53'')) = Some ''gene_name''"
  by (simp add: decode_id_def re_search_def re_defs spec_symbol_shape_def)

section \<open>Properties of the annotation check\<close>

lemma dedup_by_length:
  "length (dedup_by key seen xs) = card (key ` set xs - set seen)"
proof (induction xs arbitrary: seen)
  case Nil
  then show ?case by simp
next
  case (Cons x xs)
  show ?case
  proof (cases "key x \<in> set seen")
    case True
    then have "key ` set (x # xs) - set seen = key ` set xs - set seen" by auto
    with True Cons show ?thesis by simp
  next
    case False
    have fin: "finite (key ` set xs - set seen)" by simp
    from False have "key ` set (x # xs) - set seen = insert (key x) (key ` set xs - set seen)"
      by auto
    then have "card (key ` set (x # xs) - set seen) = Suc (card ((key ` set xs - set seen) - {key x}))"
      using fin by (simp add: card.insert_remove)
    moreover have "(key ` set xs - set seen) - {key x} = key ` set xs - set (key x # seen)"
      by auto
    ultimately show ?thesis using False Cons by simp
  qed
qed

lemma and_then_Inr [simp]: "and_then (Inr x) f = f x"
  by (simp add: and_then_def)

lemma and_then_Inl [simp]: "and_then (Inl e) f = Inl e"
  by (simp add: and_then_def)

lemma and_then_eq_Inr: "and_then m f = Inr y \<longleftrightarrow> (\<exists>x. m = Inr x \<and> f x = Inr y)"
  by (cases m) simp_all

lemma pair_key_card:
  "card ((\<lambda>r. [r a, r b]) ` A) = card ((\<lambda>r. (r a, r b)) ` A)"
proof -
  have "(\<lambda>r. [r a, r b]) ` A = (\<lambda>p. [fst p, snd p]) ` ((\<lambda>r. (r a, r b)) ` A)"
    by (auto simp: image_image)
  moreover have "inj_on (\<lambda>p. [fst p, snd p]) ((\<lambda>r. (r a, r b)) ` A)"
    by (auto simp: inj_on_def)
  ultimately show ?thesis by (simp add: card_image)
qed

lemma principal_count_card:
  assumes "id_column \<in> set (columns annot)" "''appris_principal'' \<in> set (columns annot)"
    "''feature'' \<in> set (columns annot)" "''start'' \<in> set (columns annot)"
    "''end'' \<in> set (columns annot)"
  shows "validate_identifier annot id_column identifier =
     (let principal_count = card (spec_principal_pairs annot id_column identifier) in
       if length (spec_slice annot id_column identifier) = 0
       then Inr (False, [warn (''no '' @ id_column @ '' known by this identifier: '' @ identifier)])
       else if principal_count = 0
       then Inr (False, [warn (''no principal isoform found for '' @ identifier)])
       else if principal_count > 1
       then Inr (False, [warn (''too many primary isoforms for '' @ identifier)])
       else Inr (True, []))"
  using assms
  by (simp add: validate_identifier_def mask_eq_def dropna_def select_def drop_duplicates_def
      dedup_by_length pair_key_card spec_slice_def spec_principal_pairs_def Let_def
      del: set_filter)

lemmas example_defs = example_annot_def feature_row_def mk_row_def

lemma example_columns:
  "''gene_name'' \<in> set (columns example_annot)" "''appris_principal'' \<in> set (columns example_annot)"
  "''feature'' \<in> set (columns example_annot)" "''start'' \<in> set (columns example_annot)"
  "''end'' \<in> set (columns example_annot)"
  by (simp_all add: example_annot_def)

text \<open>
  On an annotation that has the lookup column and the four columns the check reads,
  \<^verbatim>\<open>validate_identifier\<close> returns True exactly when the slice of rows with
  \<^verbatim>\<open>lookup_column == identifier\<close> is not empty and its rows with a non-null
  \<^verbatim>\<open>appris_principal\<close> and feature \<^verbatim>\<open>start_codon\<close> have exactly one
  distinct (start, end) pair. It returns False with the warning
  \<^verbatim>\<open>no <column> known by this identifier\<close> when the slice is empty, with
  \<^verbatim>\<open>no principal isoform found\<close> when there is no such pair, and with
  \<^verbatim>\<open>too many primary isoforms\<close> when there are several.
\<close>

lemma validate_identifier_decision:
  assumes "id_column \<in> set (columns annot)" "''appris_principal'' \<in> set (columns annot)"
    "''feature'' \<in> set (columns annot)" "''start'' \<in> set (columns annot)"
    "''end'' \<in> set (columns annot)"
  shows "validate_identifier annot id_column identifier =
       Inr (if spec_slice annot id_column identifier = []
            then (False, [warn (''no '' @ id_column @ '' known by this identifier: '' @ identifier)])
            else if card (spec_principal_pairs annot id_column identifier) = 0
            then (False, [warn (''no principal isoform found for '' @ identifier)])
            else if card (spec_principal_pairs annot id_column identifier) > 1
            then (False, [warn (''too many primary isoforms for '' @ identifier)])
            else (True, []))
     \<and> ((\<exists>out. validate_identifier annot id_column identifier = Inr (True, out)) \<longleftrightarrow>
          spec_slice annot id_column identifier \<noteq> []
          \<and> card (spec_principal_pairs annot id_column identifier) = 1)"
proof -
  have *: "validate_identifier annot id_column identifier =
       Inr (if spec_slice annot id_column identifier = []
            then (False, [warn (''no '' @ id_column @ '' known by this identifier: '' @ identifier)])
            else if card (spec_principal_pairs annot id_column identifier) = 0
            then (False, [warn (''no principal isoform found for '' @ identifier)])
            else if card (spec_principal_pairs annot id_column identifier) > 1
            then (False, [warn (''too many primary isoforms for '' @ identifier)])
            else (True, []))"
    using principal_count_card [OF assms] by (simp add: Let_def)
  have "(\<exists>out. validate_identifier annot id_column identifier = Inr (True, out)) \<longleftrightarrow>
          spec_slice annot id_column identifier \<noteq> []
          \<and> card (spec_principal_pairs annot id_column identifier) = 1"
    unfolding * by auto
  with * show ?thesis by (rule conjI)
qed

lemma validate_identifier_decision_example:
  "''gene_name'' \<in> set (columns example_annot) \<and> ''appris_principal'' \<in> set (columns example_annot)
   \<and> ''feature'' \<in> set (columns example_annot) \<and> ''start'' \<in> set (columns example_annot)
   \<and> ''end'' \<in> set (columns example_annot)
   \<and> validate_identifier example_annot ''gene_name'' ''TP53'' = Inr (True, [])
   \<and> validate_identifier example_annot ''gene_name'' ''FAKEGENE'' =
       Inr (False, [''[* ] no gene_name known by this identifier: FAKEGENE''])
   \<and> validate_identifier example_annot ''gene_name'' ''NOPRINC'' =
       Inr (False, [''[* ] no principal isoform found for NOPRINC''])
   \<and> validate_identifier example_annot ''gene_name'' ''AMBIG'' =
       Inr (False, [''[* ] too many primary isoforms for AMBIG''])"
proof -
  note d = validate_identifier_decision [OF example_columns, THEN conjunct1]
  have "validate_identifier example_annot ''gene_name'' ''TP53'' = Inr (True, [])"
    unfolding d by (simp add: spec_principal_pairs_def spec_slice_def example_defs)
  moreover have "validate_identifier example_annot ''gene_name'' ''FAKEGENE'' =
       Inr (False, [''[* ] no gene_name known by this identifier: FAKEGENE''])"
    unfolding d by (simp add: spec_slice_def example_defs warn_def)
  moreover have "validate_identifier example_annot ''gene_name'' ''NOPRINC'' =
       Inr (False, [''[* ] no principal isoform found for NOPRINC''])"
    unfolding d by (simp add: spec_principal_pairs_def spec_slice_def example_defs warn_def)
  moreover have "validate_identifier example_annot ''gene_name'' ''AMBIG'' =
       Inr (False, [''[* ] too many primary isoforms for AMBIG''])"
    unfolding d by (simp add: spec_principal_pairs_def spec_slice_def example_defs warn_def)
  ultimately show ?thesis using example_columns by simp
qed

text \<open>
  Claim C1. The specification has \<^verbatim>\<open>validate\<close> decide in this way for every
  annotation, lookup column and identifier: True exactly when the slice is not empty and
  has one distinct principal start codon pair, False with the warning
  \<^verbatim>\<open>no <column> known by this identifier\<close> when the slice is empty. For a lookup
  column that the annotation does not have the source does not: \<^verbatim>\<open>main\<close> passes
  the placeholder \<^verbatim>\<open>TBD\<close> for the UCSC identifier \<^verbatim>\<open>uc002gig.1\<close>, no row
  of the small annotation has that identifier in such a column, and
  \<^verbatim>\<open>annot[id_column]\<close> raises \<^verbatim>\<open>KeyError\<close>: nothing is returned and no
  warning is printed. An unknown identifier in a column that exists gets the warning.
\<close>

theorem validate_identifier_placeholder_raises:
  "id_gff3_names (fst (decode_id ''uc002gig.1'')) = Some ''TBD''
   \<and> spec_slice example_annot ''TBD'' ''uc002gig.1'' = []
   \<and> validate_identifier example_annot ''TBD'' ''uc002gig.1'' = Inl (KeyError ''TBD'')
   \<and> spec_slice example_annot ''gene_name'' ''FAKEGENE'' = []
   \<and> validate_identifier example_annot ''gene_name'' ''FAKEGENE'' =
       Inr (False, [''[* ] no gene_name known by this identifier: FAKEGENE''])"
proof -
  have "id_gff3_names (fst (decode_id ''uc002gig.1'')) = Some ''TBD''"
    by (simp add: decode_id_def re_search_def re_defs)
  moreover have "spec_slice example_annot ''TBD'' ''uc002gig.1'' = []"
    "spec_slice example_annot ''gene_name'' ''FAKEGENE'' = []"
    by (simp_all add: spec_slice_def example_defs)
  moreover have "validate_identifier example_annot ''TBD'' ''uc002gig.1'' = Inl (KeyError ''TBD'')"
    by (simp add: validate_identifier_def mask_eq_def example_annot_def)
  moreover have "validate_identifier example_annot ''gene_name'' ''FAKEGENE'' =
       Inr (False, [''[* ] no gene_name known by this identifier: FAKEGENE''])"
    by code_simp
  ultimately show ?thesis by simp
qed

section \<open>Properties of the promoter interval\<close>

lemma int64_wrap_id: "in_int64 x \<Longrightarrow> int64_wrap x = x"
  by (simp add: in_int64_def int64_wrap_def)

lemma int64_wrap_mod: "int64_wrap x mod 2 ^ 64 = x mod 2 ^ 64"
  by (simp add: int64_wrap_def mod_diff_left_eq)

lemma do_gff3_stuff_first:
  assumes "first_start_codon p CDS chr str"
  shows "do_gff3_stuff p id_column identifier up down =
     (if str = PStr ''+'' then
         and_then (py_sub CDS up) (\<lambda>bed_start.
         and_then (py_add CDS down) (\<lambda>bed_end.
           Inr \<lparr>chrom = chr, start = PInt bed_start, end' = PInt bed_end,
                name = PStr identifier, score = PStr ''.'', strand = str\<rparr>))
       else if str = PStr ''-'' then
         and_then (py_sub CDS down) (\<lambda>bed_start.
         and_then (py_add CDS up) (\<lambda>bed_end.
           Inr \<lparr>chrom = chr, start = PInt bed_start, end' = PInt bed_end,
                name = PStr identifier, score = PStr ''.'', strand = str\<rparr>))
       else Inl (UnboundLocalError ''bed_start''))"
  using assms
  by (auto simp: first_start_codon_def reads_columns_def start_codon_rows_def do_gff3_stuff_def
      mask_eq_def values0_def split: list.splits)

lemma py_sub_Inr:
  "py_sub v b = Inr x \<longleftrightarrow> (\<exists>a. v = PInt a \<and> in_int64 b \<and> x = int64_wrap (a - b))"
  by (cases v) auto

lemma py_add_Inr:
  "py_add v b = Inr x \<longleftrightarrow> (\<exists>a. v = PInt a \<and> in_int64 b \<and> x = int64_wrap (a + b))"
  by (cases v) auto

lemma do_gff3_stuff_Inr:
  assumes "do_gff3_stuff p id_column identifier up down = Inr r"
  shows "\<exists>CDS chr. first_start_codon p (PInt CDS) chr (strand r) \<and> in_int64 up \<and> in_int64 down \<and>
     (r = \<lparr>chrom = chr, start = PInt (int64_wrap (CDS - up)),
           end' = PInt (int64_wrap (CDS + down)),
           name = PStr identifier, score = PStr ''.'', strand = PStr ''+''\<rparr>
      \<or> r = \<lparr>chrom = chr, start = PInt (int64_wrap (CDS - down)),
           end' = PInt (int64_wrap (CDS + up)),
           name = PStr identifier, score = PStr ''.'', strand = PStr ''-''\<rparr>)"
proof -
  from assms obtain sc CDS chr str where
    sc: "mask_eq p ''feature'' (PStr ''start_codon'') = Inr sc"
    and v: "values0 sc ''start'' = Inr CDS" "values0 sc ''seqname'' = Inr chr"
      "values0 sc ''strand'' = Inr str"
    and body: "(if str = PStr ''+'' then
         and_then (py_sub CDS up) (\<lambda>bed_start.
         and_then (py_add CDS down) (\<lambda>bed_end.
           Inr \<lparr>chrom = chr, start = PInt bed_start, end' = PInt bed_end,
                name = PStr identifier, score = PStr ''.'', strand = str\<rparr>))
       else if str = PStr ''-'' then
         and_then (py_sub CDS down) (\<lambda>bed_start.
         and_then (py_add CDS up) (\<lambda>bed_end.
           Inr \<lparr>chrom = chr, start = PInt bed_start, end' = PInt bed_end,
                name = PStr identifier, score = PStr ''.'', strand = str\<rparr>))
       else Inl (UnboundLocalError ''bed_start'')) = Inr r"
    unfolding do_gff3_stuff_def and_then_eq_Inr by blast
  from sc v have f: "first_start_codon p CDS chr str"
    by (auto simp: first_start_codon_def reads_columns_def start_codon_rows_def
        mask_eq_def values0_def split: if_splits list.splits)
  from body have
    "str = PStr ''+'' \<and> (\<exists>c. CDS = PInt c \<and> in_int64 up \<and> in_int64 down \<and>
         r = \<lparr>chrom = chr, start = PInt (int64_wrap (c - up)),
               end' = PInt (int64_wrap (c + down)),
               name = PStr identifier, score = PStr ''.'', strand = PStr ''+''\<rparr>)
     \<or> str = PStr ''-'' \<and> (\<exists>c. CDS = PInt c \<and> in_int64 up \<and> in_int64 down \<and>
         r = \<lparr>chrom = chr, start = PInt (int64_wrap (c - down)),
               end' = PInt (int64_wrap (c + up)),
               name = PStr identifier, score = PStr ''.'', strand = PStr ''-''\<rparr>)"
    by (auto simp: and_then_eq_Inr py_sub_Inr py_add_Inr split: if_splits)
  with f show ?thesis by auto
qed

lemma example_first_TP53:
  "first_start_codon example_annot (PInt 1000) (PStr ''chr17'') (PStr ''-'')"
  by (simp add: first_start_codon_def reads_columns_def start_codon_rows_def example_defs)

lemma example_first_T2:
  "first_start_codon (example_transcript ''T2'') (PInt 1000) (PStr ''chr1'') (PStr ''+'')"
  by (simp add: first_start_codon_def reads_columns_def start_codon_rows_def example_defs
      example_transcript_def)

lemma example_first_T6:
  "first_start_codon (example_transcript ''T6'') (PInt 800) (PStr ''chr4'') (PStr ''.'')"
  by (simp add: first_start_codon_def reads_columns_def start_codon_rows_def example_defs
      example_transcript_def)

lemma example_first_T6_None:
  "first_start_codon
     ((example_transcript ''T6'')\<lparr>rows := map (\<lambda>r. r(''strand'' := PNone)) (rows (example_transcript ''T6''))\<rparr>)
     (PInt 800) (PStr ''chr4'') PNone"
  by (simp add: first_start_codon_def reads_columns_def start_codon_rows_def example_defs
      example_transcript_def)

lemma edge_first:
  "first_start_codon (edge_frame str) (PInt 9223372036854775807) (PStr ''chr1'') (PStr str)"
  by (simp add: first_start_codon_def reads_columns_def start_codon_rows_def example_defs
      edge_frame_def)

lemma example_TP53_region:
  "do_gff3_stuff example_annot ''gene_name'' ''TP53'' 1000 500 =
     Inr \<lparr>chrom = PStr ''chr17'', start = PInt 500, end' = PInt 2000,
          name = PStr ''TP53'', score = PStr ''.'', strand = PStr ''-''\<rparr>"
  by (simp add: do_gff3_stuff_first [OF example_first_TP53] in_int64_def int64_wrap_def)

text \<open>
  Claim C2, as amended. When the first start codon row has the coordinate \<open>CDS\<close>, the
  chromosome \<open>chr\<close> and the strand \<^verbatim>\<open>+\<close>, and the offsets and the two bounds
  \<open>CDS - upstream\<close> and \<open>CDS + downstream\<close> lie in the 64-bit range, the region runs
  from \<open>CDS - upstream\<close> to \<open>CDS + downstream\<close>; when the strand is \<^verbatim>\<open>-\<close> and
  the offsets and \<open>CDS - downstream\<close> and \<open>CDS + upstream\<close> lie in the 64-bit range,
  from \<open>CDS - downstream\<close> to \<open>CDS + upstream\<close>. A minus-strand start codon at 1000
  with \<open>upstream = 1000\<close> and \<open>downstream = 500\<close> gives the region from 500 to 2000.
\<close>

theorem do_gff3_stuff_strand_aware:
  "(first_start_codon p (PInt CDS) chr (PStr ''+'')
      \<and> in_int64 upstream \<and> in_int64 downstream
      \<and> in_int64 (CDS - upstream) \<and> in_int64 (CDS + downstream) \<longrightarrow>
      do_gff3_stuff p id_column identifier upstream downstream =
        Inr \<lparr>chrom = chr, start = PInt (CDS - upstream), end' = PInt (CDS + downstream),
             name = PStr identifier, score = PStr ''.'', strand = PStr ''+''\<rparr>)
   \<and> (first_start_codon p (PInt CDS) chr (PStr ''-'')
      \<and> in_int64 upstream \<and> in_int64 downstream
      \<and> in_int64 (CDS - downstream) \<and> in_int64 (CDS + upstream) \<longrightarrow>
      do_gff3_stuff p id_column identifier upstream downstream =
        Inr \<lparr>chrom = chr, start = PInt (CDS - downstream), end' = PInt (CDS + upstream),
             name = PStr identifier, score = PStr ''.'', strand = PStr ''-''\<rparr>)"
proof (intro conjI impI)
  assume a: "first_start_codon p (PInt CDS) chr (PStr ''+'')
      \<and> in_int64 upstream \<and> in_int64 downstream
      \<and> in_int64 (CDS - upstream) \<and> in_int64 (CDS + downstream)"
  then have f: "first_start_codon p (PInt CDS) chr (PStr ''+'')" by simp
  from a show "do_gff3_stuff p id_column identifier upstream downstream =
        Inr \<lparr>chrom = chr, start = PInt (CDS - upstream), end' = PInt (CDS + downstream),
             name = PStr identifier, score = PStr ''.'', strand = PStr ''+''\<rparr>"
    by (simp add: do_gff3_stuff_first [OF f] int64_wrap_id)
next
  assume a: "first_start_codon p (PInt CDS) chr (PStr ''-'')
      \<and> in_int64 upstream \<and> in_int64 downstream
      \<and> in_int64 (CDS - downstream) \<and> in_int64 (CDS + upstream)"
  then have f: "first_start_codon p (PInt CDS) chr (PStr ''-'')" by simp
  from a show "do_gff3_stuff p id_column identifier upstream downstream =
        Inr \<lparr>chrom = chr, start = PInt (CDS - downstream), end' = PInt (CDS + upstream),
             name = PStr identifier, score = PStr ''.'', strand = PStr ''-''\<rparr>"
    by (simp add: do_gff3_stuff_first [OF f] int64_wrap_id)
qed

theorem do_gff3_stuff_strand_aware_witness:
  "first_start_codon example_annot (PInt 1000) (PStr ''chr17'') (PStr ''-'')
   \<and> in_int64 1000 \<and> in_int64 500 \<and> in_int64 (1000 - 500) \<and> in_int64 (1000 + 1000)
   \<and> do_gff3_stuff example_annot ''gene_name'' ''TP53'' 1000 500 =
        Inr \<lparr>chrom = PStr ''chr17'', start = PInt 500, end' = PInt 2000,
             name = PStr ''TP53'', score = PStr ''.'', strand = PStr ''-''\<rparr>
   \<and> first_start_codon (example_transcript ''T2'') (PInt 1000) (PStr ''chr1'') (PStr ''+'')
   \<and> in_int64 (1000 - 1000) \<and> in_int64 (1000 + 500)
   \<and> do_gff3_stuff (example_transcript ''T2'') ''gene_name'' ''GENEP'' 1000 500 =
        Inr \<lparr>chrom = PStr ''chr1'', start = PInt 0, end' = PInt 1500,
             name = PStr ''GENEP'', score = PStr ''.'', strand = PStr ''+''\<rparr>"
proof -
  have i: "in_int64 1000" "in_int64 500" "in_int64 (1000 - 500)" "in_int64 (1000 + 1000)"
    "in_int64 (1000 - 1000)" "in_int64 (1000 + 500)"
    by (simp_all add: in_int64_def)
  have "do_gff3_stuff example_annot ''gene_name'' ''TP53'' 1000 500 =
        Inr \<lparr>chrom = PStr ''chr17'', start = PInt 500, end' = PInt 2000,
             name = PStr ''TP53'', score = PStr ''.'', strand = PStr ''-''\<rparr>"
    using do_gff3_stuff_strand_aware [of example_annot 1000 "PStr ''chr17''" 1000 500
        "''gene_name''" "''TP53''", THEN conjunct2] example_first_TP53 i
    by simp
  moreover have "do_gff3_stuff (example_transcript ''T2'') ''gene_name'' ''GENEP'' 1000 500 =
        Inr \<lparr>chrom = PStr ''chr1'', start = PInt 0, end' = PInt 1500,
             name = PStr ''GENEP'', score = PStr ''.'', strand = PStr ''+''\<rparr>"
    using do_gff3_stuff_strand_aware [of "example_transcript ''T2''" 1000 "PStr ''chr1''" 1000 500
        "''gene_name''" "''GENEP''", THEN conjunct1] example_first_T2 i
    by simp
  ultimately show ?thesis using example_first_TP53 example_first_T2 i by simp
qed

text \<open>
  The claim as the specification states it, for all integers, is false: at the coordinate
  \<open>2 ^ 63 - 1\<close> on the plus strand, \<open>downstream = 1\<close> gives the end \<open>- 2 ^ 63\<close> and
  not \<open>CDS + 1\<close>, and \<open>upstream = 2 ^ 64\<close> gives no region at all.
\<close>

theorem do_gff3_stuff_strand_aware_counterexample:
  "first_start_codon (edge_frame ''+'') (PInt 9223372036854775807) (PStr ''chr1'') (PStr ''+'')
   \<and> do_gff3_stuff (edge_frame ''+'') ''gene_name'' ''EDGE'' 0 1 =
        Inr \<lparr>chrom = PStr ''chr1'', start = PInt 9223372036854775807,
             end' = PInt (- 9223372036854775808),
             name = PStr ''EDGE'', score = PStr ''.'', strand = PStr ''+''\<rparr>
   \<and> PInt (- 9223372036854775808) \<noteq> PInt (9223372036854775807 + 1)
   \<and> do_gff3_stuff (edge_frame ''+'') ''gene_name'' ''EDGE'' 18446744073709551616 0 =
        Inl OverflowError"
  by (simp add: edge_first do_gff3_stuff_first [OF edge_first] in_int64_def int64_wrap_def)

text \<open>
  Claim C6, as amended. When the offsets and the two bounds lie in the 64-bit range, a
  region is returned and spans \<open>upstream + downstream\<close>:
  \<open>end - start = upstream + downstream\<close>, on either strand. Every region that
  \<^verbatim>\<open>do_gff3_stuff\<close> returns at all has \<open>end - start\<close> congruent to
  \<open>upstream + downstream\<close> modulo \<open>2 ^ 64\<close>.
\<close>

theorem region_span:
  "(first_start_codon p (PInt CDS) chr str \<and> in_int64 upstream \<and> in_int64 downstream
      \<and> (str = PStr ''+'' \<and> in_int64 (CDS - upstream) \<and> in_int64 (CDS + downstream)
         \<or> str = PStr ''-'' \<and> in_int64 (CDS - downstream) \<and> in_int64 (CDS + upstream)) \<longrightarrow>
      (\<exists>r s e. do_gff3_stuff p id_column identifier upstream downstream = Inr r
         \<and> start r = PInt s \<and> end' r = PInt e \<and> e - s = upstream + downstream))
   \<and> (\<forall>r. do_gff3_stuff p id_column identifier upstream downstream = Inr r \<longrightarrow>
        (\<exists>s e. start r = PInt s \<and> end' r = PInt e
           \<and> (e - s) mod 2 ^ 64 = (upstream + downstream) mod 2 ^ 64))"
proof (intro conjI allI impI)
  assume a: "first_start_codon p (PInt CDS) chr str \<and> in_int64 upstream \<and> in_int64 downstream
      \<and> (str = PStr ''+'' \<and> in_int64 (CDS - upstream) \<and> in_int64 (CDS + downstream)
         \<or> str = PStr ''-'' \<and> in_int64 (CDS - downstream) \<and> in_int64 (CDS + upstream))"
  then have f: "first_start_codon p (PInt CDS) chr str" by simp
  from a show "\<exists>r s e. do_gff3_stuff p id_column identifier upstream downstream = Inr r
         \<and> start r = PInt s \<and> end' r = PInt e \<and> e - s = upstream + downstream"
    by (auto simp: do_gff3_stuff_first [OF f] int64_wrap_id)
next
  fix r
  assume "do_gff3_stuff p id_column identifier upstream downstream = Inr r"
  from do_gff3_stuff_Inr [OF this] obtain c chr' where
    "r = \<lparr>chrom = chr', start = PInt (int64_wrap (c - upstream)),
           end' = PInt (int64_wrap (c + downstream)),
           name = PStr identifier, score = PStr ''.'', strand = PStr ''+''\<rparr>
      \<or> r = \<lparr>chrom = chr', start = PInt (int64_wrap (c - downstream)),
           end' = PInt (int64_wrap (c + upstream)),
           name = PStr identifier, score = PStr ''.'', strand = PStr ''-''\<rparr>"
    by blast
  then have
    "start r = PInt (int64_wrap (c - upstream)) \<and> end' r = PInt (int64_wrap (c + downstream))
     \<or> start r = PInt (int64_wrap (c - downstream)) \<and> end' r = PInt (int64_wrap (c + upstream))"
    by auto
  moreover have "(int64_wrap (c + downstream) - int64_wrap (c - upstream)) mod 2 ^ 64
      = (upstream + downstream) mod 2 ^ 64"
  proof -
    have "(int64_wrap (c + downstream) - int64_wrap (c - upstream)) mod 2 ^ 64
        = (int64_wrap (c + downstream) mod 2 ^ 64 - int64_wrap (c - upstream) mod 2 ^ 64) mod 2 ^ 64"
      by (simp only: mod_diff_eq)
    also have "\<dots> = ((c + downstream) mod 2 ^ 64 - (c - upstream) mod 2 ^ 64) mod 2 ^ 64"
      by (simp only: int64_wrap_mod)
    also have "\<dots> = ((c + downstream) - (c - upstream)) mod 2 ^ 64"
      by (simp only: mod_diff_eq)
    finally show ?thesis by (simp add: algebra_simps)
  qed
  moreover have "(int64_wrap (c + upstream) - int64_wrap (c - downstream)) mod 2 ^ 64
      = (upstream + downstream) mod 2 ^ 64"
  proof -
    have "(int64_wrap (c + upstream) - int64_wrap (c - downstream)) mod 2 ^ 64
        = (int64_wrap (c + upstream) mod 2 ^ 64 - int64_wrap (c - downstream) mod 2 ^ 64) mod 2 ^ 64"
      by (simp only: mod_diff_eq)
    also have "\<dots> = ((c + upstream) mod 2 ^ 64 - (c - downstream) mod 2 ^ 64) mod 2 ^ 64"
      by (simp only: int64_wrap_mod)
    also have "\<dots> = ((c + upstream) - (c - downstream)) mod 2 ^ 64"
      by (simp only: mod_diff_eq)
    finally show ?thesis by (simp add: algebra_simps)
  qed
  ultimately show "\<exists>s e. start r = PInt s \<and> end' r = PInt e
           \<and> (e - s) mod 2 ^ 64 = (upstream + downstream) mod 2 ^ 64"
    by auto
qed

theorem region_span_witness:
  "first_start_codon example_annot (PInt 1000) (PStr ''chr17'') (PStr ''-'')
   \<and> in_int64 1000 \<and> in_int64 500 \<and> in_int64 (1000 - 500) \<and> in_int64 (1000 + 1000)
   \<and> do_gff3_stuff example_annot ''gene_name'' ''TP53'' 1000 500 =
        Inr \<lparr>chrom = PStr ''chr17'', start = PInt 500, end' = PInt 2000,
             name = PStr ''TP53'', score = PStr ''.'', strand = PStr ''-''\<rparr>
   \<and> (\<exists>r s e. do_gff3_stuff example_annot ''gene_name'' ''TP53'' 1000 500 = Inr r
         \<and> start r = PInt s \<and> end' r = PInt e \<and> e - s = 1000 + 500)
   \<and> (\<exists>s e. PInt 500 = PInt s \<and> PInt 2000 = PInt e
         \<and> (e - s) mod 2 ^ 64 = ((1000::int) + 500) mod 2 ^ 64)"
proof -
  have i: "in_int64 1000" "in_int64 500" "in_int64 (1000 - 500)" "in_int64 (1000 + 1000)"
    by (simp_all add: in_int64_def)
  note s = region_span [of example_annot 1000 "PStr ''chr17''" "PStr ''-''" 1000 500
      "''gene_name''" "''TP53''"]
  from s [THEN conjunct1] example_first_TP53 i
  have "\<exists>r s e. do_gff3_stuff example_annot ''gene_name'' ''TP53'' 1000 500 = Inr r
         \<and> start r = PInt s \<and> end' r = PInt e \<and> e - s = 1000 + 500"
    by simp
  moreover from s [THEN conjunct2, rule_format, OF example_TP53_region]
  have "\<exists>s e. PInt 500 = PInt s \<and> PInt 2000 = PInt e
         \<and> (e - s) mod 2 ^ 64 = ((1000::int) + 500) mod 2 ^ 64"
    by simp
  ultimately show ?thesis using example_first_TP53 example_TP53_region i by blast
qed

text \<open>
  The claim as the specification states it, for all integers, is false: at the coordinate
  \<open>2 ^ 63 - 1\<close> on the plus strand with \<open>upstream = 1000\<close> and \<open>downstream = 500\<close>
  the end wraps around, and \<open>end - start\<close> is not 1500.
\<close>

theorem region_span_counterexample:
  "do_gff3_stuff (edge_frame ''+'') ''gene_name'' ''EDGE'' 1000 500 =
        Inr \<lparr>chrom = PStr ''chr1'', start = PInt 9223372036854774807,
             end' = PInt (- 9223372036854775309),
             name = PStr ''EDGE'', score = PStr ''.'', strand = PStr ''+''\<rparr>
   \<and> (- 9223372036854775309) - 9223372036854774807 \<noteq> (1000::int) + 500"
  by (simp add: do_gff3_stuff_first [OF edge_first] in_int64_def int64_wrap_def)


text \<open>
  Claim C9. When the strand of the first start codon row is neither \<^verbatim>\<open>+\<close> nor
  \<^verbatim>\<open>-\<close> (\<^verbatim>\<open>.\<close>, or missing), \<^verbatim>\<open>do_gff3_stuff\<close> raises
  \<^verbatim>\<open>UnboundLocalError\<close> for \<^verbatim>\<open>bed_start\<close> instead of returning a region;
  every region it returns has the strand \<^verbatim>\<open>+\<close> or \<^verbatim>\<open>-\<close>.
\<close>

theorem do_gff3_stuff_other_strand_raises:
  "(first_start_codon p CDS chr str \<and> str \<noteq> PStr ''+'' \<and> str \<noteq> PStr ''-'' \<longrightarrow>
      do_gff3_stuff p id_column identifier upstream downstream = Inl (UnboundLocalError ''bed_start''))
   \<and> (do_gff3_stuff p id_column identifier upstream downstream = Inr r \<longrightarrow>
      strand r = PStr ''+'' \<or> strand r = PStr ''-'')"
proof (intro conjI impI)
  assume "first_start_codon p CDS chr str \<and> str \<noteq> PStr ''+'' \<and> str \<noteq> PStr ''-''"
  then have f: "first_start_codon p CDS chr str" and ne: "str \<noteq> PStr ''+''" "str \<noteq> PStr ''-''"
    by simp_all
  show "do_gff3_stuff p id_column identifier upstream downstream = Inl (UnboundLocalError ''bed_start'')"
    using ne by (simp add: do_gff3_stuff_first [OF f])
next
  assume "do_gff3_stuff p id_column identifier upstream downstream = Inr r"
  from do_gff3_stuff_Inr [OF this] show "strand r = PStr ''+'' \<or> strand r = PStr ''-''"
    by auto
qed

theorem do_gff3_stuff_other_strand_raises_witness:
  "first_start_codon (example_transcript ''T6'') (PInt 800) (PStr ''chr4'') (PStr ''.'')
   \<and> PStr ''.'' \<noteq> PStr ''+'' \<and> PStr ''.'' \<noteq> PStr ''-''
   \<and> do_gff3_stuff (example_transcript ''T6'') ''gene_name'' ''NOSTRAND'' 1000 500 =
        Inl (UnboundLocalError ''bed_start'')
   \<and> do_gff3_stuff
        ((example_transcript ''T6'')\<lparr>rows := map (\<lambda>r. r(''strand'' := PNone)) (rows (example_transcript ''T6''))\<rparr>)
        ''gene_name'' ''NOSTRAND'' 1000 500 = Inl (UnboundLocalError ''bed_start'')
   \<and> do_gff3_stuff example_annot ''gene_name'' ''TP53'' 1000 500 =
      Inr \<lparr>chrom = PStr ''chr17'', start = PInt 500, end' = PInt 2000,
           name = PStr ''TP53'', score = PStr ''.'', strand = PStr ''-''\<rparr>"
proof -
  have "do_gff3_stuff (example_transcript ''T6'') ''gene_name'' ''NOSTRAND'' 1000 500 =
        Inl (UnboundLocalError ''bed_start'')"
    using do_gff3_stuff_other_strand_raises [THEN conjunct1, THEN mp, of _ _ _ "PStr ''.''"]
      example_first_T6 by simp
  moreover have "do_gff3_stuff
        ((example_transcript ''T6'')\<lparr>rows := map (\<lambda>r. r(''strand'' := PNone)) (rows (example_transcript ''T6''))\<rparr>)
        ''gene_name'' ''NOSTRAND'' 1000 500 = Inl (UnboundLocalError ''bed_start'')"
    using do_gff3_stuff_other_strand_raises [THEN conjunct1, THEN mp, of _ _ _ PNone]
      example_first_T6_None by simp
  ultimately show ?thesis using example_first_T6 example_TP53_region by simp
qed

section \<open>Properties of the loop over the identifiers\<close>

lemma do_gff3_stuff_truthy:
  assumes "do_gff3_stuff p id_column identifier up down = Inr r"
  shows "score r = PStr ''.'' \<and> Region_bool r"
  using do_gff3_stuff_Inr [OF assms] by (auto simp: Region_bool_def)

lemma main_step_not_empty_region:
  "snd (main_step annot principals up down fasta identifier) \<noteq> Inr SkippedEmptyRegion"
  by (auto simp: main_step_def Let_def and_then_eq_Inr dest: do_gff3_stuff_truthy
      split: prod.splits option.splits sum.splits)

lemma main_loop_not_empty_region:
  "main_loop annot principals up down fasta identifiers = (out, Inr ocs) \<Longrightarrow>
     SkippedEmptyRegion \<notin> set ocs"
proof (induction identifiers arbitrary: out ocs)
  case Nil
  then show ?case by simp
next
  case (Cons x xs)
  from Cons.prems obtain o1 oc o2 ocs' where
    st: "main_step annot principals up down fasta x = (o1, Inr oc)"
    and lp: "main_loop annot principals up down fasta xs = (o2, Inr ocs')"
    and ocs: "ocs = oc # ocs'"
    by (auto split: prod.splits sum.splits)
  from st main_step_not_empty_region [of annot principals up down fasta x]
  have "oc \<noteq> SkippedEmptyRegion" by auto
  with Cons.IH [OF lp] ocs show ?case by simp
qed

lemma main_body_not_empty_region:
  assumes "main_body annot up down fasta identifiers = (out, Inr ocs)"
  shows "SkippedEmptyRegion \<notin> set ocs"
proof -
  from assms obtain principals out' where
    "main_loop annot principals up down fasta identifiers = (out', Inr ocs)"
    by (auto simp: main_body_def split: sum.splits prod.splits)
  then show ?thesis by (rule main_loop_not_empty_region)
qed

lemma main_loop_step_error:
  "snd (main_step annot principals up down fasta x) = Inl e \<Longrightarrow>
     snd (main_loop annot principals up down fasta (x # rest)) = Inl e"
  by (cases "main_step annot principals up down fasta x") simp

lemma main_body_loop:
  "principals_of annot = Inr principals \<Longrightarrow>
     snd (main_body annot up down fasta identifiers) =
     snd (main_loop annot principals up down fasta identifiers)"
  by (simp add: main_body_def split: prod.splits)

lemma main_step_unknown:
  "fst (decode_id x) = None \<Longrightarrow>
     main_step annot principals up down fasta x = (map Print (snd (decode_id x)), Inl (KeyError ''None''))"
  by (cases "decode_id x") (simp add: main_step_def)

lemma validate_identifier_missing_column:
  "id_column \<notin> set (columns annot) \<Longrightarrow>
     validate_identifier annot id_column identifier = Inl (KeyError id_column)"
  by (simp add: validate_identifier_def mask_eq_def)

lemma example_principals:
  "principals_of example_annot = Inr (example_annot\<lparr>
      columns := [''gene_name'', ''gene_id'', ''transcript_name'', ''transcript_id'', ''appris_principal''],
      rows := [rows example_annot ! 0, rows example_annot ! 2, rows example_annot ! 3,
               rows example_annot ! 4, rows example_annot ! 6]\<rparr>)"
  by (simp add: principals_of_def dropna_def select_def drop_duplicates_def example_defs)

text \<open>
  Claim C10. Every region returned by \<^verbatim>\<open>do_gff3_stuff\<close> has the score
  \<^verbatim>\<open>'.'\<close>, a non-empty string, and is therefore truthy; no iteration of the loop
  of \<^verbatim>\<open>main\<close> ends in the branch that skips an empty region.
\<close>

theorem region_always_truthy:
  "(do_gff3_stuff p id_column identifier up down = Inr r \<longrightarrow> score r = PStr ''.'' \<and> Region_bool r)
   \<and> snd (main_step annot principals up down fasta identifier) \<noteq> Inr SkippedEmptyRegion
   \<and> (main_body annot up down fasta identifiers = (out, Inr ocs) \<longrightarrow>
        SkippedEmptyRegion \<notin> set ocs)"
  using do_gff3_stuff_truthy [of p id_column "identifier" up down r]
    main_step_not_empty_region [of annot principals up down fasta "identifier"]
    main_body_not_empty_region [of annot up down fasta identifiers out ocs]
  by blast

theorem region_always_truthy_witness:
  "do_gff3_stuff example_annot ''gene_name'' ''TP53'' 1000 500 =
      Inr \<lparr>chrom = PStr ''chr17'', start = PInt 500, end' = PInt 2000,
           name = PStr ''TP53'', score = PStr ''.'', strand = PStr ''-''\<rparr>
   \<and> Region_bool \<lparr>chrom = PStr ''chr17'', start = PInt 500, end' = PInt 2000,
           name = PStr ''TP53'', score = PStr ''.'', strand = PStr ''-''\<rparr>
   \<and> main_body example_annot 1000 500 ''genome.fa'' [''FAKEGENE'', ''TP53''] =
     ([Print (''[ok] probing genes'' @ [CHR 0x0A]),
       Print ''[ok] FAKEGENE => Official gene symbol'',
       Print ''[* ] no gene_name known by this identifier: FAKEGENE'', Print [],
       Print ''[ok] TP53 => Official gene symbol'',
       Bedtools_cmd \<lparr>chrom = PStr ''chr17'', start = PInt 500, end' = PInt 2000,
           name = PStr ''TP53'', score = PStr ''.'', strand = PStr ''-''\<rparr>
         ''TP53'' ''genome.fa'' ''TP53.fa'', Print []],
      Inr [SkippedInvalid, Extracted])
   \<and> SkippedEmptyRegion \<notin> set [SkippedInvalid, Extracted]"
proof -
  have r: "do_gff3_stuff example_annot ''gene_name'' ''TP53'' 1000 500 =
      Inr \<lparr>chrom = PStr ''chr17'', start = PInt 500, end' = PInt 2000,
           name = PStr ''TP53'', score = PStr ''.'', strand = PStr ''-''\<rparr>"
    by (rule example_TP53_region)
  have b: "main_body example_annot 1000 500 ''genome.fa'' [''FAKEGENE'', ''TP53''] =
     ([Print (''[ok] probing genes'' @ [CHR 0x0A]),
       Print ''[ok] FAKEGENE => Official gene symbol'',
       Print ''[* ] no gene_name known by this identifier: FAKEGENE'', Print [],
       Print ''[ok] TP53 => Official gene symbol'',
       Bedtools_cmd \<lparr>chrom = PStr ''chr17'', start = PInt 500, end' = PInt 2000,
           name = PStr ''TP53'', score = PStr ''.'', strand = PStr ''-''\<rparr>
         ''TP53'' ''genome.fa'' ''TP53.fa'', Print []],
      Inr [SkippedInvalid, Extracted])"
    by code_simp
  note t = region_always_truthy [of example_annot "''gene_name''" "''TP53''" 1000 500 _
      example_annot _ "''genome.fa''" "[''FAKEGENE'', ''TP53'']"]
  from t [THEN conjunct1, THEN mp, OF r]
  have "Region_bool \<lparr>chrom = PStr ''chr17'', start = PInt 500, end' = PInt 2000,
           name = PStr ''TP53'', score = PStr ''.'', strand = PStr ''-''\<rparr>"
    by simp
  moreover from t [THEN conjunct2, THEN conjunct2, THEN mp, OF b]
  have "SkippedEmptyRegion \<notin> set [SkippedInvalid, Extracted]" .
  ultimately show ?thesis using r b by simp
qed

text \<open>
  Claim C4. The specification has an identifier that matches no pattern warned about and
  skipped, the rest of the batch being processed. In the source the warning is printed,
  and then \<^verbatim>\<open>id_gff3_names[None]\<close> raises \<^verbatim>\<open>KeyError\<close> before the test
  \<^verbatim>\<open>if id_type:\<close> is reached: the run ends there, whatever the annotation and
  whatever identifiers follow. \<^verbatim>\<open>TP53\<close> alone is extracted from the small
  annotation; after \<^verbatim>\<open>abc\<close> it is never looked at.
\<close>

theorem unknown_identifier_aborts:
  "decode_id ''abc'' = (None, [''[* ] I was unable to understand your gene id: abc''])
   \<and> main_loop annot principals up down fasta (''abc'' # rest) =
       ([Print ''[* ] I was unable to understand your gene id: abc''], Inl (KeyError ''None''))
   \<and> main_body example_annot 1000 500 ''genome.fa'' [''TP53''] =
       ([Print (''[ok] probing genes'' @ [CHR 0x0A]),
         Print ''[ok] TP53 => Official gene symbol'',
         Bedtools_cmd \<lparr>chrom = PStr ''chr17'', start = PInt 500, end' = PInt 2000,
           name = PStr ''TP53'', score = PStr ''.'', strand = PStr ''-''\<rparr>
           ''TP53'' ''genome.fa'' ''TP53.fa'', Print []],
        Inr [Extracted])
   \<and> main_body example_annot 1000 500 ''genome.fa'' [''abc'', ''TP53''] =
       ([Print (''[ok] probing genes'' @ [CHR 0x0A]),
         Print ''[* ] I was unable to understand your gene id: abc''],
        Inl (KeyError ''None''))"
proof -
  have d: "decode_id ''abc'' = (None, [''[* ] I was unable to understand your gene id: abc''])"
    by (simp add: decode_id_def re_search_def re_defs warn_def)
  have "main_loop annot principals up down fasta (''abc'' # rest) =
       ([Print ''[* ] I was unable to understand your gene id: abc''], Inl (KeyError ''None''))"
    using main_step_unknown [of "''abc''" annot principals up down fasta] by (simp add: d)
  moreover have "main_body example_annot 1000 500 ''genome.fa'' [''TP53''] =
       ([Print (''[ok] probing genes'' @ [CHR 0x0A]),
         Print ''[ok] TP53 => Official gene symbol'',
         Bedtools_cmd \<lparr>chrom = PStr ''chr17'', start = PInt 500, end' = PInt 2000,
           name = PStr ''TP53'', score = PStr ''.'', strand = PStr ''-''\<rparr>
           ''TP53'' ''genome.fa'' ''TP53.fa'', Print []],
        Inr [Extracted])"
    by code_simp
  moreover have "main_body example_annot 1000 500 ''genome.fa'' [''abc'', ''TP53''] =
       ([Print (''[ok] probing genes'' @ [CHR 0x0A]),
         Print ''[* ] I was unable to understand your gene id: abc''],
        Inl (KeyError ''None''))"
    by code_simp
  ultimately show ?thesis using d by simp
qed

text \<open>
  What the source does for every UCSC or RefSeq identifier: it is looked up in the
  placeholder column \<^verbatim>\<open>TBD\<close>, and on an annotation that has no column of that
  name the lookup raises \<^verbatim>\<open>KeyError\<close> and the run ends with that exception.
\<close>

lemma placeholder_column_raises:
  "(fst (decode_id identifier) = Some UCSC \<or> fst (decode_id identifier) = Some REFSEQ \<longrightarrow>
      id_gff3_names (fst (decode_id identifier)) = Some ''TBD'')
   \<and> (''TBD'' \<notin> set (columns annot) \<longrightarrow>
      validate_identifier annot ''TBD'' identifier = Inl (KeyError ''TBD''))
   \<and> ((fst (decode_id identifier) = Some UCSC \<or> fst (decode_id identifier) = Some REFSEQ)
       \<and> ''TBD'' \<notin> set (columns annot) \<and> principals_of annot = Inr principals \<longrightarrow>
      snd (main_body annot up down fasta (identifier # rest)) = Inl (KeyError ''TBD''))"
proof (intro conjI impI)
  assume "fst (decode_id identifier) = Some UCSC \<or> fst (decode_id identifier) = Some REFSEQ"
  then show "id_gff3_names (fst (decode_id identifier)) = Some ''TBD''" by auto
next
  assume "''TBD'' \<notin> set (columns annot)"
  then show "validate_identifier annot ''TBD'' identifier = Inl (KeyError ''TBD'')"
    by (rule validate_identifier_missing_column)
next
  assume a: "(fst (decode_id identifier) = Some UCSC \<or> fst (decode_id identifier) = Some REFSEQ)
       \<and> ''TBD'' \<notin> set (columns annot) \<and> principals_of annot = Inr principals"
  then have v: "validate_identifier annot ''TBD'' identifier = Inl (KeyError ''TBD'')"
    by (simp add: validate_identifier_missing_column)
  from a have "snd (main_step annot principals up down fasta identifier) = Inl (KeyError ''TBD'')"
    by (auto simp: main_step_def v split: prod.splits)
  then have "snd (main_loop annot principals up down fasta (identifier # rest)) = Inl (KeyError ''TBD'')"
    by (rule main_loop_step_error)
  with a show "snd (main_body annot up down fasta (identifier # rest)) = Inl (KeyError ''TBD'')"
    by (simp add: main_body_loop)
qed

text \<open>
  Claim C5. The specification has every lookup with the placeholder column of a UCSC or
  RefSeq identifier fail validation: \<^verbatim>\<open>validate\<close> returns False with a warning,
  and the run neither succeeds nor aborts. In the source \<^verbatim>\<open>annot['TBD']\<close> raises
  \<^verbatim>\<open>KeyError\<close> before anything is returned or warned, and nothing catches it:
  for \<^verbatim>\<open>NM_000546\<close> followed by \<^verbatim>\<open>TP53\<close> on the small annotation the run
  ends at the first identifier and \<^verbatim>\<open>TP53\<close> is never looked at.
\<close>

theorem placeholder_column_aborts:
  "decode_id ''NM_000546'' = (Some REFSEQ, [])
   \<and> id_gff3_names (Some REFSEQ) = Some ''TBD''
   \<and> validate_identifier example_annot ''TBD'' ''NM_000546'' = Inl (KeyError ''TBD'')
   \<and> main_body example_annot 1000 500 ''genome.fa'' [''NM_000546'', ''TP53''] =
       ([Print (''[ok] probing genes'' @ [CHR 0x0A]),
         Print ''[ok] NM_000546 => NCBI Refseq id''],
        Inl (KeyError ''TBD''))"
proof -
  have "decode_id ''NM_000546'' = (Some REFSEQ, [])"
    by (simp add: decode_id_def re_search_def re_defs)
  moreover have "validate_identifier example_annot ''TBD'' ''NM_000546'' = Inl (KeyError ''TBD'')"
    by (simp add: validate_identifier_def mask_eq_def example_annot_def)
  moreover have "main_body example_annot 1000 500 ''genome.fa'' [''NM_000546'', ''TP53''] =
       ([Print (''[ok] probing genes'' @ [CHR 0x0A]),
         Print ''[ok] NM_000546 => NCBI Refseq id''],
        Inl (KeyError ''TBD''))"
    by code_simp
  ultimately show ?thesis by simp
qed

end
